theory Spec2Isabelle
  imports Complex_Main "HOL-Library.Sublist"
begin

section \<open>Exceptions and Python values\<close>

text \<open>
  Every Python exception the connectors can meet is a value of \<open>exn\<close>; all of them
  are instances of Python's class \<open>Exception\<close>, so \<open>except Exception\<close> catches each of
  them. A computation that may raise returns \<open>exn + 'a\<close>, with \<open>Inl\<close> for the raise.
  Clock readings and delays are reals. A Python \<open>float\<close> read from a response is
  a \<open>pyfloat\<close>: \<open>Finite x\<close> stands for the double nearest to \<open>x\<close>, next to the
  infinities and NaN. Converting an integer to \<open>float\<close> raises \<open>OverflowError\<close> when
  the integer rounds beyond the largest double.
\<close>

datatype exn =
    KeyError | ValueError | TypeError | IndexError | AttributeError
  | OverflowError | OSError | ImportError | ConnectionError | Timeout

definition bind_exn :: "exn + 'a \<Rightarrow> ('a \<Rightarrow> exn + 'b) \<Rightarrow> exn + 'b" where
  "bind_exn m f = (case m of Inl e \<Rightarrow> Inl e | Inr x \<Rightarrow> f x)"

text \<open>
  What \<open>resp.json()\<close> yields: a Python object built from JSON. \<open>JObj\<close> carries the
  items of a \<open>dict\<close> in insertion order (in a Python dict the keys are distinct).
\<close>

datatype pyfloat = Finite real | PosInf | NegInf | NaN

definition float_overflows :: "real \<Rightarrow> bool" where
  "float_overflows x = (\<bar>x\<bar> \<ge> 2 ^ 1024 - 2 ^ 970)"

definition float_of_int :: "int \<Rightarrow> exn + real" where
  "float_of_int n =
     (if float_overflows (real_of_int n) then Inl OverflowError else Inr (real_of_int n))"

datatype json =
    JNull | JBool bool | JInt int | JFloat pyfloat | JStr string
  | JArr "json list" | JObj "(string \<times> json) list"

text \<open>
  A naive \<open>datetime\<close> is the number of microseconds since 0001-01-01 00:00:00; the
  representable range ends with 9999-12-31 23:59:59.999999. Subtracting
  \<open>timedelta(days=n)\<close> raises \<open>OverflowError\<close> when \<open>n\<close> exceeds 999999999 in
  magnitude or the result leaves the range.
\<close>

type_synonym datetime = int

definition US_PER_DAY :: int where
  "US_PER_DAY = 86400000000"

definition datetime_max :: datetime where
  "datetime_max = 3652059 * US_PER_DAY - 1"

definition datetime_minus_days :: "datetime \<Rightarrow> int \<Rightarrow> exn + datetime" where
  "datetime_minus_days d n =
     (if \<bar>n\<bar> > 999999999 then Inl OverflowError
      else let r = d - n * US_PER_DAY
           in if 0 \<le> r \<and> r \<le> datetime_max then Inr r else Inl OverflowError)"

text \<open>
  The library functions whose inner working is not part of the repository are parameters
  of the model: string methods, the number and date parsers (\<open>None\<close> is their
  \<open>ValueError\<close>), \<open>datetime.fromtimestamp\<close> on a number (\<open>JInt\<close> or \<open>JFloat\<close>) and
  \<open>datetime.timestamp\<close>.
\<close>

record builtins =
  str_upper :: "string \<Rightarrow> string"
  str_split :: "string \<Rightarrow> string list"
  str_of_int :: "int \<Rightarrow> string"
  float_of_str :: "string \<Rightarrow> pyfloat option"
  int_of_str :: "string \<Rightarrow> int option"
  strptime :: "string \<Rightarrow> string \<Rightarrow> datetime option"
  strftime :: "datetime \<Rightarrow> string \<Rightarrow> string"
  fromtimestamp :: "json \<Rightarrow> exn + datetime"
  to_timestamp :: "datetime \<Rightarrow> exn + real"

subsection \<open>Python operations on the values\<close>

definition py_dict_get :: "json \<Rightarrow> string \<Rightarrow> json \<Rightarrow> exn + json" where
  "py_dict_get d k dflt =
     (case d of
        JObj kvs \<Rightarrow> Inr (case map_of kvs k of Some v \<Rightarrow> v | None \<Rightarrow> dflt)
      | _ \<Rightarrow> Inl AttributeError)"

definition py_getitem :: "json \<Rightarrow> string \<Rightarrow> exn + json" where
  "py_getitem d k =
     (case d of
        JObj kvs \<Rightarrow> (case map_of kvs k of Some v \<Rightarrow> Inr v | None \<Rightarrow> Inl KeyError)
      | _ \<Rightarrow> Inl TypeError)"

definition py_len :: "json \<Rightarrow> exn + nat" where
  "py_len x =
     (case x of
        JArr xs \<Rightarrow> Inr (length xs)
      | JStr s \<Rightarrow> Inr (length s)
      | JObj kvs \<Rightarrow> Inr (length kvs)
      | _ \<Rightarrow> Inl TypeError)"

definition py_index :: "json \<Rightarrow> nat \<Rightarrow> exn + json" where
  "py_index x i =
     (case x of
        JArr xs \<Rightarrow> if i < length xs then Inr (xs ! i) else Inl IndexError
      | JStr s \<Rightarrow> if i < length s then Inr (JStr [s ! i]) else Inl IndexError
      | JObj kvs \<Rightarrow> Inl KeyError
      | _ \<Rightarrow> Inl TypeError)"

definition py_iter :: "json \<Rightarrow> exn + json list" where
  "py_iter x =
     (case x of
        JArr xs \<Rightarrow> Inr xs
      | JStr s \<Rightarrow> Inr (map (\<lambda>c. JStr [c]) s)
      | JObj kvs \<Rightarrow> Inr (map (\<lambda>kv. JStr (fst kv)) kvs)
      | _ \<Rightarrow> Inl TypeError)"

definition py_items :: "json \<Rightarrow> exn + (string \<times> json) list" where
  "py_items x = (case x of JObj kvs \<Rightarrow> Inr kvs | _ \<Rightarrow> Inl AttributeError)"

definition py_contains :: "string \<Rightarrow> json \<Rightarrow> exn + bool" where
  "py_contains s x =
     (case x of
        JObj kvs \<Rightarrow> Inr (s \<in> fst ` set kvs)
      | JArr xs \<Rightarrow> Inr (JStr s \<in> set xs)
      | JStr t \<Rightarrow> Inr (sublist s t)
      | _ \<Rightarrow> Inl TypeError)"

definition py_trunc :: "real \<Rightarrow> int" where
  "py_trunc r = (if 0 \<le> r then \<lfloor>r\<rfloor> else \<lceil>r\<rceil>)"

definition py_float :: "builtins \<Rightarrow> json \<Rightarrow> exn + pyfloat" where
  "py_float py x =
     (case x of
        JInt n \<Rightarrow> (case float_of_int n of Inl e \<Rightarrow> Inl e | Inr r \<Rightarrow> Inr (Finite r))
      | JFloat f \<Rightarrow> Inr f
      | JBool b \<Rightarrow> Inr (Finite (if b then 1 else 0))
      | JStr s \<Rightarrow> (case float_of_str py s of Some r \<Rightarrow> Inr r | None \<Rightarrow> Inl ValueError)
      | _ \<Rightarrow> Inl TypeError)"

definition py_int :: "builtins \<Rightarrow> json \<Rightarrow> exn + int" where
  "py_int py x =
     (case x of
        JInt n \<Rightarrow> Inr n
      | JFloat f \<Rightarrow>
          (case f of
             Finite r \<Rightarrow> Inr (py_trunc r)
           | NaN \<Rightarrow> Inl ValueError
           | _ \<Rightarrow> Inl OverflowError)
      | JBool b \<Rightarrow> Inr (if b then 1 else 0)
      | JStr s \<Rightarrow> (case int_of_str py s of Some n \<Rightarrow> Inr n | None \<Rightarrow> Inl ValueError)
      | _ \<Rightarrow> Inl TypeError)"

definition py_split :: "builtins \<Rightarrow> json \<Rightarrow> exn + string list" where
  "py_split py x = (case x of JStr s \<Rightarrow> Inr (str_split py s) | _ \<Rightarrow> Inl AttributeError)"

definition py_first :: "'a list \<Rightarrow> exn + 'a" where
  "py_first xs = (case xs of [] \<Rightarrow> Inl IndexError | x # _ \<Rightarrow> Inr x)"

definition py_strptime :: "builtins \<Rightarrow> json \<Rightarrow> string \<Rightarrow> exn + datetime" where
  "py_strptime py x fmt =
     (case x of
        JStr s \<Rightarrow> (case strptime py s fmt of Some d \<Rightarrow> Inr d | None \<Rightarrow> Inl ValueError)
      | _ \<Rightarrow> Inl TypeError)"

definition py_fromtimestamp :: "builtins \<Rightarrow> json \<Rightarrow> exn + datetime" where
  "py_fromtimestamp py x =
     (case x of
        JInt n \<Rightarrow> fromtimestamp py (JInt n)
      | JFloat f \<Rightarrow> fromtimestamp py (JFloat f)
      | JBool b \<Rightarrow> fromtimestamp py (JInt (if b then 1 else 0))
      | _ \<Rightarrow> Inl TypeError)"

text \<open>
  \<open>x / d\<close> for a positive integer \<open>d\<close>: the quotient of two integers raises
  \<open>OverflowError\<close> when it is too large for a double.
\<close>

definition py_truediv :: "json \<Rightarrow> int \<Rightarrow> exn + pyfloat" where
  "py_truediv x d =
     (case x of
        JInt n \<Rightarrow> if float_overflows (real_of_int n / real_of_int d) then Inl OverflowError
                  else Inr (Finite (real_of_int n / real_of_int d))
      | JFloat f \<Rightarrow> Inr (case f of Finite r \<Rightarrow> Finite (r / real_of_int d) | other \<Rightarrow> other)
      | JBool b \<Rightarrow> Inr (Finite ((if b then 1 else 0) / real_of_int d))
      | _ \<Rightarrow> Inl TypeError)"

definition dict_get :: "(string \<times> 'a) list \<Rightarrow> string \<Rightarrow> 'a \<Rightarrow> 'a" where
  "dict_get kvs k dflt = (case map_of kvs k of Some v \<Rightarrow> v | None \<Rightarrow> dflt)"

text \<open>\<open>float(d.get(k, dflt))\<close> and \<open>float(d[k])\<close>, and the same for \<open>int\<close>.\<close>

definition get_float :: "builtins \<Rightarrow> json \<Rightarrow> string \<Rightarrow> json \<Rightarrow> exn + pyfloat" where
  "get_float py d k dflt = bind_exn (py_dict_get d k dflt) (py_float py)"

definition get_int :: "builtins \<Rightarrow> json \<Rightarrow> string \<Rightarrow> json \<Rightarrow> exn + int" where
  "get_int py d k dflt = bind_exn (py_dict_get d k dflt) (py_int py)"

definition item_float :: "builtins \<Rightarrow> json \<Rightarrow> string \<Rightarrow> exn + pyfloat" where
  "item_float py d k = bind_exn (py_getitem d k) (py_float py)"

definition item_int :: "builtins \<Rightarrow> json \<Rightarrow> string \<Rightarrow> exn + int" where
  "item_int py d k = bind_exn (py_getitem d k) (py_int py)"

text \<open>
  The body of a loop of the form \<open>try: ... except (KeyError, ValueError): continue\<close>
  yields \<open>Some\<close> record, or \<open>None\<close> when the item is skipped (by \<open>continue\<close>); any
  other exception leaves the loop. \<open>collect\<close> is the loop that appends the records.
\<close>

definition except_continue :: "exn + 'a option \<Rightarrow> exn + 'a option" where
  "except_continue m =
     (case m of
        Inl e \<Rightarrow> if e = KeyError \<or> e = ValueError then Inr None else Inl e
      | Inr r \<Rightarrow> Inr r)"

fun collect :: "('a \<Rightarrow> exn + 'b option) \<Rightarrow> 'a list \<Rightarrow> exn + 'b list" where
  "collect f [] = Inr []"
| "collect f (x # xs) =
     (case f x of
        Inl e \<Rightarrow> Inl e
      | Inr None \<Rightarrow> collect f xs
      | Inr (Some r) \<Rightarrow> (case collect f xs of Inl e \<Rightarrow> Inl e | Inr rs \<Rightarrow> Inr (r # rs)))"

section \<open>The outside world\<close>

datatype param = PStr string | PInt int | PNone

record request =
  url :: string
  params :: "(string \<times> param) list"
  timeout :: int

record response =
  status_code :: int
  json_result :: "exn + json"

text \<open>
  The world holds the clock read by \<open>time.time()\<close>, the durations handed to
  \<open>time.sleep\<close> (oldest first), the requests issued with \<open>requests.get\<close>, and the
  outcomes the network will give to the coming requests: each outcome is a response or
  the exception the call raises; once they are used up a request fails with
  \<open>ConnectionError\<close>. The yfinance library is treated the same way: a call of
  \<open>Ticker(ticker).history(period, interval)\<close> is logged and answered with the next
  outcome, the rows of a data frame (index and columns) or an exception.
  Each outcome comes with the time the call takes, by which the clock advances.
  A sleep advances the clock by its duration. CPython keeps a duration as a signed
  64-bit number of nanoseconds: \<open>time.sleep\<close> raises \<open>OverflowError\<close> on a duration
  outside that range and \<open>ValueError\<close> on a negative one.
\<close>

record world =
  clock :: real
  sleeps :: "real list"
  http_log :: "request list"
  http_queue :: "(real \<times> (exn + response)) list"
  yf_log :: "(string \<times> string \<times> string) list"
  yf_queue :: "(real \<times> (exn + (datetime \<times> json) list)) list"

definition time_time :: "world \<Rightarrow> real" where
  "time_time w = clock w"

definition SLEEP_MAX :: real where
  "SLEEP_MAX = 9223372036854775807 / 1000000000"

definition time_sleep :: "real \<Rightarrow> world \<Rightarrow> exn + world" where
  "time_sleep d w =
     (if d > SLEEP_MAX \<or> d < - SLEEP_MAX then Inl OverflowError
      else if d < 0 then Inl ValueError
      else Inr (w\<lparr>clock := clock w + d, sleeps := sleeps w @ [d]\<rparr>))"

definition datetime_now :: "builtins \<Rightarrow> world \<Rightarrow> exn + datetime" where
  "datetime_now py w = fromtimestamp py (JFloat (Finite (time_time w)))"

definition requests_get :: "request \<Rightarrow> world \<Rightarrow> (exn + response) \<times> world" where
  "requests_get req w =
     (case http_queue w of
        [] \<Rightarrow> (Inl ConnectionError, w\<lparr>http_log := http_log w @ [req]\<rparr>)
      | (lat, r) # rs \<Rightarrow>
          (r, w\<lparr>clock := clock w + lat, http_log := http_log w @ [req], http_queue := rs\<rparr>))"

definition yf_history ::
  "string \<Rightarrow> string \<Rightarrow> string \<Rightarrow> world \<Rightarrow> (exn + (datetime \<times> json) list) \<times> world" where
  "yf_history tkr period ival w =
     (case yf_queue w of
        [] \<Rightarrow> (Inl ConnectionError, w\<lparr>yf_log := yf_log w @ [(tkr, period, ival)]\<rparr>)
      | (lat, r) # rs \<Rightarrow>
          (r, w\<lparr>clock := clock w + lat, yf_log := yf_log w @ [(tkr, period, ival)],
               yf_queue := rs\<rparr>))"

section \<open>RateLimiter\<close>

record RateLimiter =
  requests_per_window :: int
  window_seconds :: int
  request_times :: "string \<rightharpoonup> real list"

definition RateLimiter_init :: "int \<Rightarrow> int \<Rightarrow> RateLimiter" where
  "RateLimiter_init n win =
     \<lparr>requests_per_window = n, window_seconds = win, request_times = Map.empty\<rparr>"

text \<open>
  \<open>wait_if_needed\<close>: a key not seen before gets the empty list; \<open>now - window_seconds\<close>
  converts the integer to a float, which raises \<open>OverflowError\<close> when it is too large;
  the timestamps of the key that are newer than the cutoff are kept; at the limit the
  call sleeps \<open>kept[0] - cutoff + 0.1\<close> (when positive); then \<open>now\<close> is appended.
  \<open>kept[0]\<close> on an empty list is Python's \<open>IndexError\<close>; it and an exception of
  \<open>time.sleep\<close> leave the dictionary entry replaced by the filtered list.
\<close>

definition wait_if_needed ::
  "RateLimiter \<Rightarrow> string \<Rightarrow> world \<Rightarrow> (exn + unit) \<times> RateLimiter \<times> world" where
  "wait_if_needed self key w =
     (let now = time_time w;
          times = (case request_times self key of None \<Rightarrow> [] | Some ts \<Rightarrow> ts);
          self0 = self\<lparr>request_times := (request_times self)(key \<mapsto> times)\<rparr>
      in case float_of_int (window_seconds self) of
           Inl e \<Rightarrow> (Inl e, self0, w)
         | Inr win \<Rightarrow>
            (let cutoff = now - win;
                 kept = filter (\<lambda>t. t > cutoff) times;
                 self1 = self\<lparr>request_times := (request_times self)(key \<mapsto> kept)\<rparr>;
                 self2 = self\<lparr>request_times := (request_times self)(key \<mapsto> kept @ [now])\<rparr>
             in if requests_per_window self \<le> int (length kept) then
                  (case kept of
                     [] \<Rightarrow> (Inl IndexError, self1, w)
                   | t0 # _ \<Rightarrow>
                       (let sleep_time = t0 - cutoff + 1 / 10
                        in if sleep_time > 0 then
                             (case time_sleep sleep_time w of
                                Inl e \<Rightarrow> (Inl e, self1, w)
                              | Inr w1 \<Rightarrow> (Inr (), self2, w1))
                           else (Inr (), self2, w)))
                else (Inr (), self2, w)))"

section \<open>retry\_with\_backoff\<close>

text \<open>
  The decorated function is a state transformer on its object \<open>'s\<close> and the world. The
  wrapper's loop \<open>for attempt in range(max_retries)\<close> is a recursion on \<open>attempt\<close>.
  Besides the result and the final state it returns a record of what it did, in order:
  one \<open>Attempt\<close> per invocation of the wrapped function, with the state the invocation
  started from and its outcome, one \<open>Slept\<close> per completed \<open>time.sleep\<close> of the
  wrapper, and \<open>Fallthrough\<close> when the statement \<open>return []\<close> after the loop is
  executed.

  \<open>backoff_sleep\<close> is \<open>delay = base_delay * (2 ** attempt); time.sleep(delay)\<close> for a
  float \<open>base_delay\<close>: the product converts the integer power to \<open>float\<close>, which raises
  \<open>OverflowError\<close> from \<open>attempt = 1024\<close> on. An exception raised there, inside the
  handler, leaves the wrapper.
\<close>

datatype ('s, 'a) retry_event = Attempt 's world "exn + 'a list" | Slept real | Fallthrough

definition backoff_sleep :: "real \<Rightarrow> nat \<Rightarrow> world \<Rightarrow> exn + world" where
  "backoff_sleep base_delay attempt w =
     bind_exn (float_of_int (2 ^ attempt)) (\<lambda>p. time_sleep (base_delay * p) w)"

function wrapper_loop ::
  "int \<Rightarrow> real \<Rightarrow> ('s \<Rightarrow> world \<Rightarrow> (exn + 'a list) \<times> 's \<times> world) \<Rightarrow> nat \<Rightarrow>
   ('s, 'a) retry_event list \<Rightarrow> 's \<Rightarrow> world \<Rightarrow>
   (exn + 'a list) \<times> ('s, 'a) retry_event list \<times> 's \<times> world" where
  "wrapper_loop max_retries base_delay func attempt evs s w =
     (if int attempt < max_retries then
        (case func s w of
           (Inr v, s1, w1) \<Rightarrow> (Inr v, evs @ [Attempt s w (Inr v)], s1, w1)
         | (Inl e, s1, w1) \<Rightarrow>
             if int attempt = max_retries - 1 then (Inl e, evs @ [Attempt s w (Inl e)], s1, w1)
             else
               (case backoff_sleep base_delay attempt w1 of
                  Inl e' \<Rightarrow> (Inl e', evs @ [Attempt s w (Inl e)], s1, w1)
                | Inr w2 \<Rightarrow>
                    wrapper_loop max_retries base_delay func (Suc attempt)
                      (evs @ [Attempt s w (Inl e), Slept (base_delay * 2 ^ attempt)]) s1 w2))
      else (Inr [], evs @ [Fallthrough], s, w))"
  by pat_completeness auto
termination
  by (relation "measure (\<lambda>(m, b, f, a, evs, s, w). nat (m - int a))") auto

definition retry_with_backoff ::
  "int \<Rightarrow> real \<Rightarrow> ('s \<Rightarrow> world \<Rightarrow> (exn + 'a list) \<times> 's \<times> world) \<Rightarrow>
   's \<Rightarrow> world \<Rightarrow> (exn + 'a list) \<times> ('s, 'a) retry_event list \<times> 's \<times> world" where
  "retry_with_backoff max_retries base_delay func s w =
     wrapper_loop max_retries base_delay func 0 [] s w"

section \<open>Data model and connector classes\<close>

record OHLCVData =
  timestamp :: datetime
  ticker :: string
  interval :: string
  open' :: pyfloat
  high :: pyfloat
  low :: pyfloat
  close :: pyfloat
  volume :: int
  adj_close :: "pyfloat option"
  source :: string

datatype provider =
  YFinance | AlphaVantage | Finnhub | TwelveData | FMP | Polygon | IEXCloud

fun SOURCE_NAME :: "provider \<Rightarrow> string" where
  "SOURCE_NAME YFinance = ''yfinance''"
| "SOURCE_NAME AlphaVantage = ''alpha_vantage''"
| "SOURCE_NAME Finnhub = ''finnhub''"
| "SOURCE_NAME TwelveData = ''twelve_data''"
| "SOURCE_NAME FMP = ''fmp''"
| "SOURCE_NAME Polygon = ''polygon''"
| "SOURCE_NAME IEXCloud = ''iex_cloud''"

fun BASE_URL :: "provider \<Rightarrow> string" where
  "BASE_URL YFinance = []"
| "BASE_URL AlphaVantage = ''https://www.alphavantage.co/query''"
| "BASE_URL Finnhub = ''https://finnhub.io/api/v1''"
| "BASE_URL TwelveData = ''https://api.twelvedata.com''"
| "BASE_URL FMP = ''https://financialmodelingprep.com/api/v3''"
| "BASE_URL Polygon = ''https://api.polygon.io''"
| "BASE_URL IEXCloud = ''https://cloud.iexapis.com/stable''"

fun SUPPORTED_INTERVALS :: "provider \<Rightarrow> string list" where
  "SUPPORTED_INTERVALS FMP = [''1m'', ''5m'', ''15m'', ''30m'', ''1h'', ''4h'', ''1d'']"
| "SUPPORTED_INTERVALS IEXCloud = [''1d'']"
| "SUPPORTED_INTERVALS _ = [''1m'', ''5m'', ''15m'', ''30m'', ''1h'', ''1d'', ''1w'']"

fun RATE_LIMIT_REQUESTS :: "provider \<Rightarrow> int" where
  "RATE_LIMIT_REQUESTS YFinance = 100"
| "RATE_LIMIT_REQUESTS AlphaVantage = 5"
| "RATE_LIMIT_REQUESTS Finnhub = 60"
| "RATE_LIMIT_REQUESTS TwelveData = 8"
| "RATE_LIMIT_REQUESTS FMP = 5"
| "RATE_LIMIT_REQUESTS Polygon = 5"
| "RATE_LIMIT_REQUESTS IEXCloud = 100"

fun RATE_LIMIT_WINDOW :: "provider \<Rightarrow> int" where
  "RATE_LIMIT_WINDOW _ = 60"

fun API_KEY_VAR :: "provider \<Rightarrow> string" where
  "API_KEY_VAR YFinance = []"
| "API_KEY_VAR AlphaVantage = ''ALPHA_VANTAGE_API_KEY''"
| "API_KEY_VAR Finnhub = ''FINNHUB_API_KEY''"
| "API_KEY_VAR TwelveData = ''TWELVE_DATA_API_KEY''"
| "API_KEY_VAR FMP = ''FMP_API_KEY''"
| "API_KEY_VAR Polygon = ''POLYGON_API_KEY''"
| "API_KEY_VAR IEXCloud = ''IEX_CLOUD_API_KEY''"

text \<open>
  An instance of the base class holds its rate limiter; the six classes that need a
  credential add \<open>api_key\<close>. \<open>is_available\<close> is the method of the base class, which
  no subclass overrides.
\<close>

record DataConnector =
  rate_limiter :: RateLimiter

record KeyedConnector = DataConnector +
  api_key :: string

definition is_available :: "'x DataConnector_scheme \<Rightarrow> bool" where
  "is_available self = True"

definition os_getenv :: "(string \<rightharpoonup> string) \<Rightarrow> string \<Rightarrow> string \<Rightarrow> string" where
  "os_getenv env name dflt = (case env name of Some v \<Rightarrow> v | None \<Rightarrow> dflt)"

definition YFinanceConnector_init :: "bool \<Rightarrow> exn + DataConnector" where
  "YFinanceConnector_init YFINANCE_AVAILABLE =
     (if \<not> YFINANCE_AVAILABLE then Inl ImportError
      else Inr \<lparr>rate_limiter =
                  RateLimiter_init (RATE_LIMIT_REQUESTS YFinance) (RATE_LIMIT_WINDOW YFinance)\<rparr>)"

text \<open>
  \<open>__init__(self, api_key=None)\<close> of the six other classes:
  \<open>self.api_key = api_key or os.getenv(VAR, "")\<close>.
\<close>

definition KeyedConnector_init ::
  "provider \<Rightarrow> (string \<rightharpoonup> string) \<Rightarrow> string option \<Rightarrow> KeyedConnector" where
  "KeyedConnector_init p env key =
     \<lparr>rate_limiter = RateLimiter_init (RATE_LIMIT_REQUESTS p) (RATE_LIMIT_WINDOW p),
      api_key = (case key of
                   Some k \<Rightarrow> if k \<noteq> [] then k else os_getenv env (API_KEY_VAR p) []
                 | None \<Rightarrow> os_getenv env (API_KEY_VAR p) [])\<rparr>"

section \<open>The connectors' fetch\_ohlcv\<close>

subsection \<open>YFinance\<close>

definition YFinance_bar ::
  "builtins \<Rightarrow> string \<Rightarrow> string \<Rightarrow> datetime \<times> json \<Rightarrow> exn + OHLCVData option" where
  "YFinance_bar py tkr ival ir =
     (case ir of (idx, row) \<Rightarrow>
        bind_exn (item_float py row ''Open'') (\<lambda>opn.
        bind_exn (item_float py row ''High'') (\<lambda>h.
        bind_exn (item_float py row ''Low'') (\<lambda>l.
        bind_exn (item_float py row ''Close'') (\<lambda>c.
        bind_exn (item_int py row ''Volume'') (\<lambda>v.
        bind_exn (bind_exn (py_getitem row ''Close'') (get_float py row ''Adj Close'')) (\<lambda>a.
        Inr (Some \<lparr>timestamp = idx, ticker = str_upper py tkr, interval = ival,
                    open' = opn, high = h, low = l, close = c, volume = v,
                    adj_close = Some a, source = SOURCE_NAME YFinance\<rparr>))))))))"

definition YFinance_body ::
  "builtins \<Rightarrow> string \<Rightarrow> string \<Rightarrow> int \<Rightarrow> DataConnector \<Rightarrow> world \<Rightarrow>
   (exn + OHLCVData list) \<times> DataConnector \<times> world" where
  "YFinance_body py tkr ival lookback_days self w =
     (case wait_if_needed (rate_limiter self) tkr w of
        (Inl e, rl, w1) \<Rightarrow> (Inl e, self\<lparr>rate_limiter := rl\<rparr>, w1)
      | (Inr _, rl, w1) \<Rightarrow>
          (let interval_map = [(''1m'', ''1m''), (''5m'', ''5m''), (''15m'', ''15m''),
                 (''30m'', ''30m''), (''1h'', ''1h''), (''1d'', ''1d''), (''1w'', ''1wk'')];
               yf_interval = dict_get interval_map ival ''1d''
           in case yf_history tkr (str_of_int py lookback_days @ ''d'') yf_interval w1 of
                (Inl e, w2) \<Rightarrow> (Inl e, self\<lparr>rate_limiter := rl\<rparr>, w2)
              | (Inr df, w2) \<Rightarrow>
                  (collect (YFinance_bar py tkr ival) df, self\<lparr>rate_limiter := rl\<rparr>, w2)))"

definition YFinance_fetch_ohlcv ::
  "builtins \<Rightarrow> DataConnector \<Rightarrow> string \<Rightarrow> string \<Rightarrow> int \<Rightarrow> world \<Rightarrow>
   (exn + OHLCVData list) \<times> (DataConnector, OHLCVData) retry_event list \<times> DataConnector \<times> world" where
  "YFinance_fetch_ohlcv py self tkr ival lookback_days w =
     retry_with_backoff 3 1 (YFinance_body py tkr ival lookback_days) self w"

subsection \<open>Alpha Vantage\<close>

definition AlphaVantage_bar ::
  "builtins \<Rightarrow> string \<Rightarrow> string \<Rightarrow> datetime \<Rightarrow> string \<times> json \<Rightarrow> exn + OHLCVData option" where
  "AlphaVantage_bar py tkr ival cutoff kv =
     (case kv of (date_str, values) \<Rightarrow>
        except_continue
         (bind_exn (py_first (str_split py date_str)) (\<lambda>tok.
          bind_exn (py_strptime py (JStr tok) ''%Y-%m-%d'') (\<lambda>ts.
          if ts < cutoff then Inr None
          else
            bind_exn (get_float py values ''1. open'' (JInt 0)) (\<lambda>opn.
            bind_exn (get_float py values ''2. high'' (JInt 0)) (\<lambda>h.
            bind_exn (get_float py values ''3. low'' (JInt 0)) (\<lambda>l.
            bind_exn (get_float py values ''4. close'' (JInt 0)) (\<lambda>c.
            bind_exn (bind_exn (py_dict_get values ''5. volume'' (JInt 0))
                        (get_int py values ''6. volume'')) (\<lambda>v.
            bind_exn (bind_exn (py_dict_get values ''4. close'' (JInt 0))
                        (get_float py values ''5. adjusted close'')) (\<lambda>a.
            Inr (Some \<lparr>timestamp = ts, ticker = str_upper py tkr, interval = ival,
                        open' = opn, high = h, low = l, close = c, volume = v,
                        adj_close = Some a, source = SOURCE_NAME AlphaVantage\<rparr>)))))))))))"

definition AlphaVantage_parse ::
  "builtins \<Rightarrow> string \<Rightarrow> string \<Rightarrow> int \<Rightarrow> string \<Rightarrow> world \<Rightarrow> response \<Rightarrow> exn + OHLCVData list" where
  "AlphaVantage_parse py tkr ival lookback_days data_key w resp =
     (if status_code resp \<noteq> 200 then Inr []
      else
        bind_exn (json_result resp) (\<lambda>data.
        bind_exn (py_dict_get data data_key (JObj [])) (\<lambda>time_series.
        bind_exn (datetime_now py w) (\<lambda>now.
        bind_exn (datetime_minus_days now lookback_days) (\<lambda>cutoff.
        bind_exn (py_items time_series) (\<lambda>items.
        bind_exn (collect (AlphaVantage_bar py tkr ival cutoff) items) (\<lambda>result.
        Inr (sort_key timestamp result))))))))"

definition AlphaVantage_body ::
  "builtins \<Rightarrow> string \<Rightarrow> string \<Rightarrow> int \<Rightarrow> KeyedConnector \<Rightarrow> world \<Rightarrow>
   (exn + OHLCVData list) \<times> KeyedConnector \<times> world" where
  "AlphaVantage_body py tkr ival lookback_days self w =
     (if api_key self = [] then (Inr [], self, w)
      else
        case wait_if_needed (rate_limiter self) tkr w of
          (Inl e, rl, w1) \<Rightarrow> (Inl e, self\<lparr>rate_limiter := rl\<rparr>, w1)
        | (Inr _, rl, w1) \<Rightarrow>
            (let daily = (ival = ''1d'' \<or> ival = ''1w'');
                 function = (if daily then ''TIME_SERIES_DAILY_ADJUSTED''
                             else ''TIME_SERIES_INTRADAY'');
                 data_key = (if daily then ''Time Series (Daily)''
                             else ''Time Series ('' @ ival @ '')'');
                 req = \<lparr>url = BASE_URL AlphaVantage,
                        params = [(''function'', PStr function), (''symbol'', PStr tkr),
                                  (''apikey'', PStr (api_key self)),
                                  (''outputsize'',
                                     PStr (if lookback_days \<le> 100 then ''compact'' else ''full'')),
                                  (''interval'', if \<not> daily then PStr ival else PNone)],
                        timeout = 30\<rparr>
             in case requests_get req w1 of
                  (Inl e, w2) \<Rightarrow> (Inl e, self\<lparr>rate_limiter := rl\<rparr>, w2)
                | (Inr resp, w2) \<Rightarrow>
                    (AlphaVantage_parse py tkr ival lookback_days data_key w2 resp,
                     self\<lparr>rate_limiter := rl\<rparr>, w2)))"

definition AlphaVantage_fetch_ohlcv ::
  "builtins \<Rightarrow> KeyedConnector \<Rightarrow> string \<Rightarrow> string \<Rightarrow> int \<Rightarrow> world \<Rightarrow>
   (exn + OHLCVData list) \<times> (KeyedConnector, OHLCVData) retry_event list \<times> KeyedConnector \<times> world" where
  "AlphaVantage_fetch_ohlcv py self tkr ival lookback_days w =
     retry_with_backoff 3 2 (AlphaVantage_body py tkr ival lookback_days) self w"


subsection \<open>Finnhub\<close>

definition Finnhub_bar ::
  "builtins \<Rightarrow> string \<Rightarrow> string \<Rightarrow> json \<Rightarrow> json \<Rightarrow> json \<Rightarrow> json \<Rightarrow> json \<Rightarrow> json \<Rightarrow> nat \<Rightarrow>
   exn + OHLCVData option" where
  "Finnhub_bar py tkr ival timestamps opens highs lows closes volumes i =
     bind_exn (bind_exn (py_index timestamps i) (py_fromtimestamp py)) (\<lambda>ts.
     bind_exn (bind_exn (py_index opens i) (py_float py)) (\<lambda>opn.
     bind_exn (bind_exn (py_index highs i) (py_float py)) (\<lambda>h.
     bind_exn (bind_exn (py_index lows i) (py_float py)) (\<lambda>l.
     bind_exn (bind_exn (py_index closes i) (py_float py)) (\<lambda>c.
     bind_exn (bind_exn (py_index volumes i) (py_int py)) (\<lambda>v.
     Inr (Some \<lparr>timestamp = ts, ticker = str_upper py tkr, interval = ival,
                 open' = opn, high = h, low = l, close = c, volume = v,
                 adj_close = None, source = SOURCE_NAME Finnhub\<rparr>)))))))"

definition Finnhub_parse ::
  "builtins \<Rightarrow> string \<Rightarrow> string \<Rightarrow> response \<Rightarrow> exn + OHLCVData list" where
  "Finnhub_parse py tkr ival resp =
     (if status_code resp \<noteq> 200 then Inr []
      else
        bind_exn (json_result resp) (\<lambda>data.
        bind_exn (py_dict_get data ''s'' JNull) (\<lambda>st.
        if st \<noteq> JStr ''ok'' then Inr []
        else
          bind_exn (py_dict_get data ''t'' (JArr [])) (\<lambda>timestamps.
          bind_exn (py_dict_get data ''o'' (JArr [])) (\<lambda>opens.
          bind_exn (py_dict_get data ''h'' (JArr [])) (\<lambda>highs.
          bind_exn (py_dict_get data ''l'' (JArr [])) (\<lambda>lows.
          bind_exn (py_dict_get data ''c'' (JArr [])) (\<lambda>closes.
          bind_exn (py_dict_get data ''v'' (JArr [])) (\<lambda>volumes.
          bind_exn (py_len timestamps) (\<lambda>n.
          collect (Finnhub_bar py tkr ival timestamps opens highs lows closes volumes)
            [0..<n]))))))))))"

definition Finnhub_body ::
  "builtins \<Rightarrow> string \<Rightarrow> string \<Rightarrow> int \<Rightarrow> KeyedConnector \<Rightarrow> world \<Rightarrow>
   (exn + OHLCVData list) \<times> KeyedConnector \<times> world" where
  "Finnhub_body py tkr ival lookback_days self w =
     (if api_key self = [] then (Inr [], self, w)
      else
        case wait_if_needed (rate_limiter self) tkr w of
          (Inl e, rl, w1) \<Rightarrow> (Inl e, self\<lparr>rate_limiter := rl\<rparr>, w1)
        | (Inr _, rl, w1) \<Rightarrow>
            (let res_map = [(''1m'', ''1''), (''5m'', ''5''), (''15m'', ''15''), (''30m'', ''30''),
                   (''1h'', ''60''), (''1d'', ''D''), (''1w'', ''W'')];
                 resolution = dict_get res_map ival ''D''
             in case bind_exn (bind_exn (datetime_now py w1) (to_timestamp py)) (\<lambda>e.
                     bind_exn (bind_exn (bind_exn (datetime_now py w1)
                                 (\<lambda>now. datetime_minus_days now lookback_days))
                                 (to_timestamp py)) (\<lambda>s.
                     Inr (py_trunc s, py_trunc e))) of
                  Inl e \<Rightarrow> (Inl e, self\<lparr>rate_limiter := rl\<rparr>, w1)
                | Inr (start, end) \<Rightarrow>
                    (case requests_get
                            \<lparr>url = BASE_URL Finnhub @ ''/stock/candle'',
                             params = [(''symbol'', PStr (str_upper py tkr)),
                                       (''resolution'', PStr resolution),
                                       (''from'', PInt start), (''to'', PInt end),
                                       (''token'', PStr (api_key self))],
                             timeout = 30\<rparr> w1 of
                       (Inl e, w2) \<Rightarrow> (Inl e, self\<lparr>rate_limiter := rl\<rparr>, w2)
                     | (Inr resp, w2) \<Rightarrow>
                         (Finnhub_parse py tkr ival resp, self\<lparr>rate_limiter := rl\<rparr>, w2))))"

definition Finnhub_fetch_ohlcv ::
  "builtins \<Rightarrow> KeyedConnector \<Rightarrow> string \<Rightarrow> string \<Rightarrow> int \<Rightarrow> world \<Rightarrow>
   (exn + OHLCVData list) \<times> (KeyedConnector, OHLCVData) retry_event list \<times> KeyedConnector \<times> world" where
  "Finnhub_fetch_ohlcv py self tkr ival lookback_days w =
     retry_with_backoff 3 1 (Finnhub_body py tkr ival lookback_days) self w"

subsection \<open>Twelve Data\<close>

definition TwelveData_bar ::
  "builtins \<Rightarrow> string \<Rightarrow> string \<Rightarrow> datetime \<Rightarrow> json \<Rightarrow> exn + OHLCVData option" where
  "TwelveData_bar py tkr ival cutoff item =
     except_continue
      (bind_exn (py_getitem item ''datetime'') (\<lambda>dt.
       bind_exn (bind_exn (py_getitem item ''datetime'') (py_contains '' '')) (\<lambda>has_space.
       bind_exn (py_strptime py dt
                   (if has_space then ''%Y-%m-%d %H:%M:%S'' else ''%Y-%m-%d'')) (\<lambda>ts.
       if ts < cutoff then Inr None
       else
         bind_exn (item_float py item ''open'') (\<lambda>opn.
         bind_exn (item_float py item ''high'') (\<lambda>h.
         bind_exn (item_float py item ''low'') (\<lambda>l.
         bind_exn (item_float py item ''close'') (\<lambda>c.
         bind_exn (get_int py item ''volume'' (JInt 0)) (\<lambda>v.
         Inr (Some \<lparr>timestamp = ts, ticker = str_upper py tkr, interval = ival,
                     open' = opn, high = h, low = l, close = c, volume = v,
                     adj_close = None, source = SOURCE_NAME TwelveData\<rparr>))))))))))"

definition TwelveData_parse ::
  "builtins \<Rightarrow> string \<Rightarrow> string \<Rightarrow> int \<Rightarrow> world \<Rightarrow> response \<Rightarrow> exn + OHLCVData list" where
  "TwelveData_parse py tkr ival lookback_days w resp =
     (if status_code resp \<noteq> 200 then Inr []
      else
        bind_exn (json_result resp) (\<lambda>data.
        bind_exn (py_contains ''values'' data) (\<lambda>has_values.
        if \<not> has_values then Inr []
        else
          bind_exn (datetime_now py w) (\<lambda>now.
          bind_exn (datetime_minus_days now lookback_days) (\<lambda>cutoff.
          bind_exn (bind_exn (py_getitem data ''values'') py_iter) (\<lambda>items.
          bind_exn (collect (TwelveData_bar py tkr ival cutoff) items) (\<lambda>result.
          Inr (sort_key timestamp result))))))))"

definition TwelveData_body ::
  "builtins \<Rightarrow> string \<Rightarrow> string \<Rightarrow> int \<Rightarrow> KeyedConnector \<Rightarrow> world \<Rightarrow>
   (exn + OHLCVData list) \<times> KeyedConnector \<times> world" where
  "TwelveData_body py tkr ival lookback_days self w =
     (if api_key self = [] then (Inr [], self, w)
      else
        case wait_if_needed (rate_limiter self) tkr w of
          (Inl e, rl, w1) \<Rightarrow> (Inl e, self\<lparr>rate_limiter := rl\<rparr>, w1)
        | (Inr _, rl, w1) \<Rightarrow>
            (let interval_map = [(''1m'', ''1min''), (''5m'', ''5min''), (''15m'', ''15min''),
                   (''30m'', ''30min''), (''1h'', ''1h''), (''1d'', ''1day''), (''1w'', ''1week'')];
                 td_interval = dict_get interval_map ival ''1day''
             in case requests_get
                       \<lparr>url = BASE_URL TwelveData @ ''/time_series'',
                        params = [(''symbol'', PStr (str_upper py tkr)),
                                  (''interval'', PStr td_interval),
                                  (''outputsize'', PInt (min (lookback_days * 7) 5000)),
                                  (''apikey'', PStr (api_key self))],
                        timeout = 30\<rparr> w1 of
                  (Inl e, w2) \<Rightarrow> (Inl e, self\<lparr>rate_limiter := rl\<rparr>, w2)
                | (Inr resp, w2) \<Rightarrow>
                    (TwelveData_parse py tkr ival lookback_days w2 resp,
                     self\<lparr>rate_limiter := rl\<rparr>, w2)))"

definition TwelveData_fetch_ohlcv ::
  "builtins \<Rightarrow> KeyedConnector \<Rightarrow> string \<Rightarrow> string \<Rightarrow> int \<Rightarrow> world \<Rightarrow>
   (exn + OHLCVData list) \<times> (KeyedConnector, OHLCVData) retry_event list \<times> KeyedConnector \<times> world" where
  "TwelveData_fetch_ohlcv py self tkr ival lookback_days w =
     retry_with_backoff 3 2 (TwelveData_body py tkr ival lookback_days) self w"

subsection \<open>Financial Modeling Prep\<close>

definition FMP_bar ::
  "builtins \<Rightarrow> string \<Rightarrow> string \<Rightarrow> datetime \<Rightarrow> json \<Rightarrow> exn + OHLCVData option" where
  "FMP_bar py tkr ival cutoff item =
     except_continue
      (bind_exn (bind_exn (bind_exn (py_getitem item ''date'') (py_split py)) py_first) (\<lambda>tok.
       bind_exn (py_strptime py (JStr tok) ''%Y-%m-%d'') (\<lambda>ts.
       if ts < cutoff then Inr None
       else
         bind_exn (get_float py item ''open'' (JInt 0)) (\<lambda>opn.
         bind_exn (get_float py item ''high'' (JInt 0)) (\<lambda>h.
         bind_exn (get_float py item ''low'' (JInt 0)) (\<lambda>l.
         bind_exn (get_float py item ''close'' (JInt 0)) (\<lambda>c.
         bind_exn (get_int py item ''volume'' (JInt 0)) (\<lambda>v.
         bind_exn (bind_exn (py_dict_get item ''close'' (JInt 0))
                     (get_float py item ''adjClose'')) (\<lambda>a.
         Inr (Some \<lparr>timestamp = ts, ticker = str_upper py tkr, interval = ival,
                     open' = opn, high = h, low = l, close = c, volume = v,
                     adj_close = Some a, source = SOURCE_NAME FMP\<rparr>))))))))))"

definition FMP_parse ::
  "builtins \<Rightarrow> string \<Rightarrow> string \<Rightarrow> int \<Rightarrow> world \<Rightarrow> response \<Rightarrow> exn + OHLCVData list" where
  "FMP_parse py tkr ival lookback_days w resp =
     (if status_code resp \<noteq> 200 then Inr []
      else
        bind_exn (json_result resp) (\<lambda>data.
        bind_exn (if ival = ''1d'' then py_dict_get data ''historical'' (JArr [])
                  else Inr (case data of JArr xs \<Rightarrow> data | _ \<Rightarrow> JArr [])) (\<lambda>historical.
        bind_exn (datetime_now py w) (\<lambda>now.
        bind_exn (datetime_minus_days now lookback_days) (\<lambda>cutoff.
        bind_exn (py_iter historical) (\<lambda>items.
        bind_exn (collect (FMP_bar py tkr ival cutoff) items) (\<lambda>result.
        Inr (sort_key timestamp result))))))))"

definition FMP_body ::
  "builtins \<Rightarrow> string \<Rightarrow> string \<Rightarrow> int \<Rightarrow> KeyedConnector \<Rightarrow> world \<Rightarrow>
   (exn + OHLCVData list) \<times> KeyedConnector \<times> world" where
  "FMP_body py tkr ival lookback_days self w =
     (if api_key self = [] then (Inr [], self, w)
      else
        case wait_if_needed (rate_limiter self) tkr w of
          (Inl e, rl, w1) \<Rightarrow> (Inl e, self\<lparr>rate_limiter := rl\<rparr>, w1)
        | (Inr _, rl, w1) \<Rightarrow>
            (let url = (if ival = ''1d''
                        then BASE_URL FMP @ ''/historical-price-full/'' @ str_upper py tkr
                        else BASE_URL FMP @ ''/historical-chart/'' @ ival @ ''/''
                               @ str_upper py tkr)
             in case requests_get
                       \<lparr>url = url, params = [(''apikey'', PStr (api_key self))],
                        timeout = 30\<rparr> w1 of
                  (Inl e, w2) \<Rightarrow> (Inl e, self\<lparr>rate_limiter := rl\<rparr>, w2)
                | (Inr resp, w2) \<Rightarrow>
                    (FMP_parse py tkr ival lookback_days w2 resp,
                     self\<lparr>rate_limiter := rl\<rparr>, w2)))"

definition FMP_fetch_ohlcv ::
  "builtins \<Rightarrow> KeyedConnector \<Rightarrow> string \<Rightarrow> string \<Rightarrow> int \<Rightarrow> world \<Rightarrow>
   (exn + OHLCVData list) \<times> (KeyedConnector, OHLCVData) retry_event list \<times> KeyedConnector \<times> world" where
  "FMP_fetch_ohlcv py self tkr ival lookback_days w =
     retry_with_backoff 3 2 (FMP_body py tkr ival lookback_days) self w"

subsection \<open>Polygon\<close>

definition Polygon_bar ::
  "builtins \<Rightarrow> string \<Rightarrow> string \<Rightarrow> json \<Rightarrow> exn + OHLCVData option" where
  "Polygon_bar py tkr ival item =
     except_continue
      (bind_exn (bind_exn (bind_exn (py_getitem item ''t'') (\<lambda>t. py_truediv t 1000))
                  (\<lambda>secs. fromtimestamp py (JFloat secs))) (\<lambda>ts.
       bind_exn (item_float py item ''o'') (\<lambda>opn.
       bind_exn (item_float py item ''h'') (\<lambda>h.
       bind_exn (item_float py item ''l'') (\<lambda>l.
       bind_exn (item_float py item ''c'') (\<lambda>c.
       bind_exn (item_int py item ''v'') (\<lambda>v.
       Inr (Some \<lparr>timestamp = ts, ticker = str_upper py tkr, interval = ival,
                   open' = opn, high = h, low = l, close = c, volume = v,
                   adj_close = None, source = SOURCE_NAME Polygon\<rparr>))))))))"

definition Polygon_parse ::
  "builtins \<Rightarrow> string \<Rightarrow> string \<Rightarrow> response \<Rightarrow> exn + OHLCVData list" where
  "Polygon_parse py tkr ival resp =
     (if status_code resp \<noteq> 200 then Inr []
      else
        bind_exn (json_result resp) (\<lambda>data.
        bind_exn (bind_exn (py_dict_get data ''results'' (JArr [])) py_iter) (\<lambda>items.
        collect (Polygon_bar py tkr ival) items)))"

definition Polygon_body ::
  "builtins \<Rightarrow> string \<Rightarrow> string \<Rightarrow> int \<Rightarrow> KeyedConnector \<Rightarrow> world \<Rightarrow>
   (exn + OHLCVData list) \<times> KeyedConnector \<times> world" where
  "Polygon_body py tkr ival lookback_days self w =
     (if api_key self = [] then (Inr [], self, w)
      else
        case wait_if_needed (rate_limiter self) tkr w of
          (Inl e, rl, w1) \<Rightarrow> (Inl e, self\<lparr>rate_limiter := rl\<rparr>, w1)
        | (Inr _, rl, w1) \<Rightarrow>
            (let timespan_map = [(''1m'', (''1'', ''minute'')), (''5m'', (''5'', ''minute'')),
                   (''15m'', (''15'', ''minute'')), (''30m'', (''30'', ''minute'')),
                   (''1h'', (''1'', ''hour'')), (''1d'', (''1'', ''day'')),
                   (''1w'', (''1'', ''week''))];
                 mt = dict_get timespan_map ival (''1'', ''day'')
             in case bind_exn (datetime_now py w1) (\<lambda>now.
                     bind_exn (bind_exn (datetime_now py w1)
                                 (\<lambda>now2. datetime_minus_days now2 lookback_days)) (\<lambda>d.
                     Inr (strftime py now ''%Y-%m-%d'', strftime py d ''%Y-%m-%d''))) of
                  Inl e \<Rightarrow> (Inl e, self\<lparr>rate_limiter := rl\<rparr>, w1)
                | Inr (end_date, start_date) \<Rightarrow>
                    (case requests_get
                            \<lparr>url = BASE_URL Polygon @ ''/v2/aggs/ticker/'' @ str_upper py tkr
                                     @ ''/range/'' @ fst mt @ ''/'' @ snd mt @ ''/''
                                     @ start_date @ ''/'' @ end_date,
                             params = [(''apiKey'', PStr (api_key self)),
                                       (''adjusted'', PStr ''true'')],
                             timeout = 30\<rparr> w1 of
                       (Inl e, w2) \<Rightarrow> (Inl e, self\<lparr>rate_limiter := rl\<rparr>, w2)
                     | (Inr resp, w2) \<Rightarrow>
                         (Polygon_parse py tkr ival resp, self\<lparr>rate_limiter := rl\<rparr>, w2))))"

definition Polygon_fetch_ohlcv ::
  "builtins \<Rightarrow> KeyedConnector \<Rightarrow> string \<Rightarrow> string \<Rightarrow> int \<Rightarrow> world \<Rightarrow>
   (exn + OHLCVData list) \<times> (KeyedConnector, OHLCVData) retry_event list \<times> KeyedConnector \<times> world" where
  "Polygon_fetch_ohlcv py self tkr ival lookback_days w =
     retry_with_backoff 3 2 (Polygon_body py tkr ival lookback_days) self w"

subsection \<open>IEX Cloud\<close>

definition IEXCloud_bar ::
  "builtins \<Rightarrow> string \<Rightarrow> string \<Rightarrow> json \<Rightarrow> exn + OHLCVData option" where
  "IEXCloud_bar py tkr ival item =
     except_continue
      (bind_exn (bind_exn (py_getitem item ''date'') (\<lambda>d. py_strptime py d ''%Y-%m-%d'')) (\<lambda>ts.
       bind_exn (get_float py item ''open'' (JInt 0)) (\<lambda>opn.
       bind_exn (get_float py item ''high'' (JInt 0)) (\<lambda>h.
       bind_exn (get_float py item ''low'' (JInt 0)) (\<lambda>l.
       bind_exn (get_float py item ''close'' (JInt 0)) (\<lambda>c.
       bind_exn (get_int py item ''volume'' (JInt 0)) (\<lambda>v.
       bind_exn (bind_exn (py_dict_get item ''close'' (JInt 0))
                   (get_float py item ''fClose'')) (\<lambda>a.
       Inr (Some \<lparr>timestamp = ts, ticker = str_upper py tkr, interval = ival,
                   open' = opn, high = h, low = l, close = c, volume = v,
                   adj_close = Some a, source = SOURCE_NAME IEXCloud\<rparr>)))))))))"

definition IEXCloud_parse ::
  "builtins \<Rightarrow> string \<Rightarrow> string \<Rightarrow> response \<Rightarrow> exn + OHLCVData list" where
  "IEXCloud_parse py tkr ival resp =
     (if status_code resp \<noteq> 200 then Inr []
      else
        bind_exn (json_result resp) (\<lambda>data.
        bind_exn (py_iter data) (\<lambda>items.
        collect (IEXCloud_bar py tkr ival) items)))"

definition IEXCloud_body ::
  "builtins \<Rightarrow> string \<Rightarrow> string \<Rightarrow> int \<Rightarrow> KeyedConnector \<Rightarrow> world \<Rightarrow>
   (exn + OHLCVData list) \<times> KeyedConnector \<times> world" where
  "IEXCloud_body py tkr ival lookback_days self w =
     (if api_key self = [] then (Inr [], self, w)
      else
        case wait_if_needed (rate_limiter self) tkr w of
          (Inl e, rl, w1) \<Rightarrow> (Inl e, self\<lparr>rate_limiter := rl\<rparr>, w1)
        | (Inr _, rl, w1) \<Rightarrow>
            (let range_param =
                   (if lookback_days \<le> 5 then ''5d''
                    else if lookback_days \<le> 30 then ''1m''
                    else if lookback_days \<le> 90 then ''3m''
                    else if lookback_days \<le> 180 then ''6m''
                    else ''1y'')
             in case requests_get
                       \<lparr>url = BASE_URL IEXCloud @ ''/stock/'' @ str_upper py tkr @ ''/chart/''
                                @ range_param,
                        params = [(''token'', PStr (api_key self))],
                        timeout = 30\<rparr> w1 of
                  (Inl e, w2) \<Rightarrow> (Inl e, self\<lparr>rate_limiter := rl\<rparr>, w2)
                | (Inr resp, w2) \<Rightarrow>
                    (IEXCloud_parse py tkr ival resp, self\<lparr>rate_limiter := rl\<rparr>, w2)))"

definition IEXCloud_fetch_ohlcv ::
  "builtins \<Rightarrow> KeyedConnector \<Rightarrow> string \<Rightarrow> string \<Rightarrow> int \<Rightarrow> world \<Rightarrow>
   (exn + OHLCVData list) \<times> (KeyedConnector, OHLCVData) retry_event list \<times> KeyedConnector \<times> world" where
  "IEXCloud_fetch_ohlcv py self tkr ival lookback_days w =
     retry_with_backoff 3 2 (IEXCloud_body py tkr ival lookback_days) self w"


section \<open>Module state, registry and fallback\<close>

text \<open>
  The module creates one instance per class when it is loaded:
  \<open>X_AVAILABLE = bool(os.getenv(VAR, ""))\<close> and
  \<open>x_connector = XConnector() if X_AVAILABLE else None\<close>. The state that a fetch
  through the registry changes is made of these instances and the world.
\<close>

record app_state =
  yfinance_connector :: "DataConnector option"
  alpha_vantage_connector :: "KeyedConnector option"
  finnhub_connector :: "KeyedConnector option"
  twelve_data_connector :: "KeyedConnector option"
  fmp_connector :: "KeyedConnector option"
  polygon_connector :: "KeyedConnector option"
  iex_cloud_connector :: "KeyedConnector option"
  outside :: world

definition KEY_AVAILABLE :: "(string \<rightharpoonup> string) \<Rightarrow> provider \<Rightarrow> bool" where
  "KEY_AVAILABLE env p = (os_getenv env (API_KEY_VAR p) [] \<noteq> [])"

definition singleton :: "(string \<rightharpoonup> string) \<Rightarrow> provider \<Rightarrow> KeyedConnector option" where
  "singleton env p =
     (if KEY_AVAILABLE env p then Some (KeyedConnector_init p env None) else None)"

definition module_init :: "bool \<Rightarrow> (string \<rightharpoonup> string) \<Rightarrow> world \<Rightarrow> exn + app_state" where
  "module_init YFINANCE_AVAILABLE env w =
     bind_exn (if YFINANCE_AVAILABLE
               then bind_exn (YFinanceConnector_init YFINANCE_AVAILABLE) (\<lambda>c. Inr (Some c))
               else Inr None) (\<lambda>yf.
     Inr \<lparr>yfinance_connector = yf,
          alpha_vantage_connector = singleton env AlphaVantage,
          finnhub_connector = singleton env Finnhub,
          twelve_data_connector = singleton env TwelveData,
          fmp_connector = singleton env FMP,
          polygon_connector = singleton env Polygon,
          iex_cloud_connector = singleton env IEXCloud,
          outside = w\<rparr>)"

text \<open>
  \<open>fetch_with_fallback\<close> reads three attributes of a connector: \<open>SOURCE_NAME\<close>,
  \<open>SUPPORTED_INTERVALS\<close> and the method \<open>fetch_ohlcv\<close>, which changes the state
  \<open>'w\<close> that the connectors live in. The objects of the seven instances act on
  \<open>app_state\<close>: the method reads the instance, runs the class's \<open>fetch_ohlcv\<close> and
  stores the instance back. (A registry entry always has its instance; the \<open>None\<close>
  branch is Python's error for a method call on \<open>None\<close>.)
\<close>

record 'w connector_obj =
  obj_SOURCE_NAME :: string
  obj_SUPPORTED_INTERVALS :: "string list"
  obj_fetch_ohlcv :: "string \<Rightarrow> string \<Rightarrow> int \<Rightarrow> 'w \<Rightarrow> (exn + OHLCVData list) \<times> 'w"

definition yfinance_obj :: "builtins \<Rightarrow> app_state connector_obj" where
  "yfinance_obj py =
     \<lparr>obj_SOURCE_NAME = SOURCE_NAME YFinance,
      obj_SUPPORTED_INTERVALS = SUPPORTED_INTERVALS YFinance,
      obj_fetch_ohlcv = (\<lambda>tkr ival lookback_days g.
        case yfinance_connector g of
          None \<Rightarrow> (Inl AttributeError, g)
        | Some self \<Rightarrow>
            (case YFinance_fetch_ohlcv py self tkr ival lookback_days (outside g) of
               (r, evs, self', w') \<Rightarrow>
                 (r, g\<lparr>yfinance_connector := Some self', outside := w'\<rparr>)))\<rparr>"

definition alpha_vantage_obj :: "builtins \<Rightarrow> app_state connector_obj" where
  "alpha_vantage_obj py =
     \<lparr>obj_SOURCE_NAME = SOURCE_NAME AlphaVantage,
      obj_SUPPORTED_INTERVALS = SUPPORTED_INTERVALS AlphaVantage,
      obj_fetch_ohlcv = (\<lambda>tkr ival lookback_days g.
        case alpha_vantage_connector g of
          None \<Rightarrow> (Inl AttributeError, g)
        | Some self \<Rightarrow>
            (case AlphaVantage_fetch_ohlcv py self tkr ival lookback_days (outside g) of
               (r, evs, self', w') \<Rightarrow>
                 (r, g\<lparr>alpha_vantage_connector := Some self', outside := w'\<rparr>)))\<rparr>"

definition finnhub_obj :: "builtins \<Rightarrow> app_state connector_obj" where
  "finnhub_obj py =
     \<lparr>obj_SOURCE_NAME = SOURCE_NAME Finnhub,
      obj_SUPPORTED_INTERVALS = SUPPORTED_INTERVALS Finnhub,
      obj_fetch_ohlcv = (\<lambda>tkr ival lookback_days g.
        case finnhub_connector g of
          None \<Rightarrow> (Inl AttributeError, g)
        | Some self \<Rightarrow>
            (case Finnhub_fetch_ohlcv py self tkr ival lookback_days (outside g) of
               (r, evs, self', w') \<Rightarrow>
                 (r, g\<lparr>finnhub_connector := Some self', outside := w'\<rparr>)))\<rparr>"

definition twelve_data_obj :: "builtins \<Rightarrow> app_state connector_obj" where
  "twelve_data_obj py =
     \<lparr>obj_SOURCE_NAME = SOURCE_NAME TwelveData,
      obj_SUPPORTED_INTERVALS = SUPPORTED_INTERVALS TwelveData,
      obj_fetch_ohlcv = (\<lambda>tkr ival lookback_days g.
        case twelve_data_connector g of
          None \<Rightarrow> (Inl AttributeError, g)
        | Some self \<Rightarrow>
            (case TwelveData_fetch_ohlcv py self tkr ival lookback_days (outside g) of
               (r, evs, self', w') \<Rightarrow>
                 (r, g\<lparr>twelve_data_connector := Some self', outside := w'\<rparr>)))\<rparr>"

definition fmp_obj :: "builtins \<Rightarrow> app_state connector_obj" where
  "fmp_obj py =
     \<lparr>obj_SOURCE_NAME = SOURCE_NAME FMP,
      obj_SUPPORTED_INTERVALS = SUPPORTED_INTERVALS FMP,
      obj_fetch_ohlcv = (\<lambda>tkr ival lookback_days g.
        case fmp_connector g of
          None \<Rightarrow> (Inl AttributeError, g)
        | Some self \<Rightarrow>
            (case FMP_fetch_ohlcv py self tkr ival lookback_days (outside g) of
               (r, evs, self', w') \<Rightarrow>
                 (r, g\<lparr>fmp_connector := Some self', outside := w'\<rparr>)))\<rparr>"

definition polygon_obj :: "builtins \<Rightarrow> app_state connector_obj" where
  "polygon_obj py =
     \<lparr>obj_SOURCE_NAME = SOURCE_NAME Polygon,
      obj_SUPPORTED_INTERVALS = SUPPORTED_INTERVALS Polygon,
      obj_fetch_ohlcv = (\<lambda>tkr ival lookback_days g.
        case polygon_connector g of
          None \<Rightarrow> (Inl AttributeError, g)
        | Some self \<Rightarrow>
            (case Polygon_fetch_ohlcv py self tkr ival lookback_days (outside g) of
               (r, evs, self', w') \<Rightarrow>
                 (r, g\<lparr>polygon_connector := Some self', outside := w'\<rparr>)))\<rparr>"

definition iex_cloud_obj :: "builtins \<Rightarrow> app_state connector_obj" where
  "iex_cloud_obj py =
     \<lparr>obj_SOURCE_NAME = SOURCE_NAME IEXCloud,
      obj_SUPPORTED_INTERVALS = SUPPORTED_INTERVALS IEXCloud,
      obj_fetch_ohlcv = (\<lambda>tkr ival lookback_days g.
        case iex_cloud_connector g of
          None \<Rightarrow> (Inl AttributeError, g)
        | Some self \<Rightarrow>
            (case IEXCloud_fetch_ohlcv py self tkr ival lookback_days (outside g) of
               (r, evs, self', w') \<Rightarrow>
                 (r, g\<lparr>iex_cloud_connector := Some self', outside := w'\<rparr>)))\<rparr>"

definition get_available_connectors :: "builtins \<Rightarrow> app_state \<Rightarrow> app_state connector_obj list" where
  "get_available_connectors py g =
     (if yfinance_connector g \<noteq> None then [yfinance_obj py] else [])
     @ (if alpha_vantage_connector g \<noteq> None then [alpha_vantage_obj py] else [])
     @ (if finnhub_connector g \<noteq> None then [finnhub_obj py] else [])
     @ (if twelve_data_connector g \<noteq> None then [twelve_data_obj py] else [])
     @ (if fmp_connector g \<noteq> None then [fmp_obj py] else [])
     @ (if polygon_connector g \<noteq> None then [polygon_obj py] else [])
     @ (if iex_cloud_connector g \<noteq> None then [iex_cloud_obj py] else [])"

text \<open>
  The loop of \<open>fetch_with_fallback\<close> over the registry. Next to the data and the final
  state it returns the list of the calls of \<open>fetch_ohlcv\<close> it made, in order: the
  position of the connector in the registry, the state the call started from, and what
  the call returned or raised.
\<close>

fun fallback_loop ::
  "'w connector_obj list \<Rightarrow> nat \<Rightarrow> string \<Rightarrow> string \<Rightarrow> int \<Rightarrow> 'w \<Rightarrow>
   OHLCVData list \<times> (nat \<times> 'w \<times> (exn + OHLCVData list)) list \<times> 'w" where
  "fallback_loop [] k tkr ival lookback_days w = ([], [], w)"
| "fallback_loop (connector # rest) k tkr ival lookback_days w =
     (if ival \<in> set (obj_SUPPORTED_INTERVALS connector) then
        (case obj_fetch_ohlcv connector tkr ival lookback_days w of
           (Inr data, w1) \<Rightarrow>
             if data \<noteq> [] then (data, [(k, w, Inr data)], w1)
             else (case fallback_loop rest (Suc k) tkr ival lookback_days w1 of
                     (d, calls, w2) \<Rightarrow> (d, (k, w, Inr data) # calls, w2))
         | (Inl e, w1) \<Rightarrow>
             (case fallback_loop rest (Suc k) tkr ival lookback_days w1 of
                (d, calls, w2) \<Rightarrow> (d, (k, w, Inl e) # calls, w2)))
      else fallback_loop rest (Suc k) tkr ival lookback_days w)"

definition fetch_with_fallback ::
  "'w connector_obj list \<Rightarrow> string \<Rightarrow> string \<Rightarrow> int \<Rightarrow> 'w \<Rightarrow>
   OHLCVData list \<times> (nat \<times> 'w \<times> (exn + OHLCVData list)) list \<times> 'w" where
  "fetch_with_fallback connectors tkr ival lookback_days w =
     fallback_loop connectors 0 tkr ival lookback_days w"

definition app_fetch_with_fallback ::
  "builtins \<Rightarrow> string \<Rightarrow> string \<Rightarrow> int \<Rightarrow> app_state \<Rightarrow>
   OHLCVData list \<times> (nat \<times> app_state \<times> (exn + OHLCVData list)) list \<times> app_state" where
  "app_fetch_with_fallback py tkr ival lookback_days g =
     fetch_with_fallback (get_available_connectors py g) tkr ival lookback_days g"


section \<open>Notions used in the statements\<close>

text \<open>
  An attempt of the retry wrapper is the state it started from and its outcome.
  \<open>attempts_of\<close> reads the attempts off the record of a run; \<open>backoff_trace\<close> is the
  record that a run with the attempts \<open>atts\<close> must have: after every attempt but the
  last, a sleep of \<open>base_delay * 2 ^ attempt\<close>. \<open>state_after\<close> is the state in which
  the wrapped function leaves an attempt.
\<close>

type_synonym ('s, 'a) attempt = "'s \<times> world \<times> (exn + 'a list)"

fun attempts_of :: "('s, 'a) retry_event list \<Rightarrow> ('s, 'a) attempt list" where
  "attempts_of [] = []"
| "attempts_of (Attempt s w r # evs) = (s, w, r) # attempts_of evs"
| "attempts_of (_ # evs) = attempts_of evs"








text \<open>
  A call of \<open>fetch_ohlcv\<close> failed when it raised or returned the empty list;
  \<open>supporting\<close> lists the registry positions whose connector supports the interval.
\<close>

definition failed :: "exn + 'a list \<Rightarrow> bool" where
  "failed r = (case r of Inl e \<Rightarrow> True | Inr xs \<Rightarrow> xs = [])"

definition supporting :: "'w connector_obj list \<Rightarrow> string \<Rightarrow> nat list" where
  "supporting cs ival = filter (\<lambda>k. ival \<in> set (obj_SUPPORTED_INTERVALS (cs ! k))) [0..<length cs]"

text \<open>Python's \<open>==\<close> on floats: NaN is not equal to itself.\<close>

definition py_float_eq :: "pyfloat \<Rightarrow> pyfloat \<Rightarrow> bool" where
  "py_float_eq a b = (a \<noteq> NaN \<and> a = b)"

section \<open>Test doubles and sample inputs\<close>





definition sample_bar :: "string \<Rightarrow> int \<Rightarrow> OHLCVData" where
  "sample_bar src t = \<lparr>timestamp = t, ticker = ''AAPL'', interval = ''1d'', open' = Finite 1,
                        high = Finite 2, low = Finite 1, close = Finite 2, volume = 10,
                        adj_close = None, source = src\<rparr>"

definition stub_connector ::
  "string \<Rightarrow> string list \<Rightarrow> exn + OHLCVData list \<Rightarrow> unit connector_obj" where
  "stub_connector name ivals outcome =
     \<lparr>obj_SOURCE_NAME = name, obj_SUPPORTED_INTERVALS = ivals,
      obj_fetch_ohlcv = (\<lambda>tkr ival lookback_days w. (outcome, w))\<rparr>"

















definition finnhub_only_env :: "string \<rightharpoonup> string" where
  "finnhub_only_env = [''FINNHUB_API_KEY'' \<mapsto> ''k'']"


section \<open>The retry wrapper\<close>

declare wrapper_loop.simps [simp del]

lemma attempts_of_append: "attempts_of (xs @ ys) = attempts_of xs @ attempts_of ys"
  by (induction xs rule: attempts_of.induct) auto























section \<open>The rate limiter\<close>

lemma float_of_int_Inr_iff:
  "float_of_int n = Inr r \<longleftrightarrow> \<not> float_overflows (real_of_int n) \<and> r = real_of_int n"
  by (auto simp: float_of_int_def)

lemma float_of_int_small:
  "\<bar>n\<bar> \<le> 10 ^ 300 \<Longrightarrow> float_of_int n = Inr (real_of_int n)"
proof -
  assume a: "\<bar>n\<bar> \<le> 10 ^ 300"
  have "(10::real) ^ 300 < 2 ^ 1024 - 2 ^ 970" by simp
  moreover from a have "\<bar>real_of_int n\<bar> \<le> 10 ^ 300"
    by (metis of_int_abs of_int_le_iff of_int_numeral of_int_power)
  ultimately show ?thesis by (simp add: float_of_int_def float_overflows_def)
qed










section \<open>The fallback loop\<close>

lemma failed_simps [simp]: "failed (Inl e)" "failed (Inr xs) = (xs = [])"
  by (simp_all add: failed_def)

lemma fallback_loop_Cons_cases:
  assumes "fallback_loop (c # cs) k t i l w = (data, calls, w')"
  obtains (skip) "i \<notin> set (obj_SUPPORTED_INTERVALS c)"
                 "fallback_loop cs (Suc k) t i l w = (data, calls, w')"
  | (hit) "i \<in> set (obj_SUPPORTED_INTERVALS c)"
          "obj_fetch_ohlcv c t i l w = (Inr data, w')" "data \<noteq> []" "calls = [(k, w, Inr data)]"
  | (miss) r0 w1 calls2 where "i \<in> set (obj_SUPPORTED_INTERVALS c)"
          "obj_fetch_ohlcv c t i l w = (r0, w1)" "failed r0"
          "fallback_loop cs (Suc k) t i l w1 = (data, calls2, w')" "calls = (k, w, r0) # calls2"
proof (cases "i \<in> set (obj_SUPPORTED_INTERVALS c)")
  case False
  with assms skip show ?thesis by simp
next
  case True
  obtain r0 w1 where f: "obj_fetch_ohlcv c t i l w = (r0, w1)" by (cases "obj_fetch_ohlcv c t i l w")
  obtain d2 calls2 w2 where rec: "fallback_loop cs (Suc k) t i l w1 = (d2, calls2, w2)"
    by (cases "fallback_loop cs (Suc k) t i l w1")
  show ?thesis
  proof (cases "failed r0")
    case False
    with True f assms hit show ?thesis by (auto split: sum.splits)
  next
    case fl: True
    with True f rec assms have "data = d2" "calls = (k, w, r0) # calls2" "w' = w2"
      by (auto split: sum.splits)
    with miss[OF True f fl] rec show ?thesis by simp
  qed
qed

lemma fallback_loop_calls:
  "fallback_loop cs k t i l w = (data, calls, w') \<Longrightarrow> (j, wb, r) \<in> set calls \<Longrightarrow>
   k \<le> j \<and> j < k + length cs \<and> i \<in> set (obj_SUPPORTED_INTERVALS (cs ! (j - k)))
   \<and> r = fst (obj_fetch_ohlcv (cs ! (j - k)) t i l wb)"
proof (induction cs arbitrary: k w calls)
  case Nil
  then show ?case by simp
next
  case (Cons c cs)
  from Cons.prems(1) show ?case
  proof (cases rule: fallback_loop_Cons_cases)
    case skip
    from Cons.IH[OF skip(2) Cons.prems(2)] show ?thesis by (auto simp: Suc_diff_le)
  next
    case hit
    with Cons.prems(2) show ?thesis by auto
  next
    case (miss r0 w1 calls2)
    show ?thesis
    proof (cases "(j, wb, r) = (k, w, r0)")
      case True
      with miss show ?thesis by auto
    next
      case False
      with miss Cons.prems(2) have "(j, wb, r) \<in> set calls2" by auto
      from Cons.IH[OF miss(4) this] show ?thesis by (auto simp: Suc_diff_le)
    qed
  qed
qed

lemma fallback_loop_sorted:
  "fallback_loop cs k t i l w = (data, calls, w') \<Longrightarrow> sorted_wrt (<) (map fst calls)"
proof (induction cs arbitrary: k w calls)
  case Nil
  then show ?case by simp
next
  case (Cons c cs)
  from Cons.prems(1) show ?case
  proof (cases rule: fallback_loop_Cons_cases)
    case skip
    from Cons.IH[OF skip(2)] show ?thesis .
  next
    case hit
    then show ?thesis by simp
  next
    case (miss r0 w1 calls2)
    have "\<forall>x \<in> set calls2. k < fst x"
    proof
      fix x assume "x \<in> set calls2"
      then have "(fst x, fst (snd x), snd (snd x)) \<in> set calls2" by simp
      from fallback_loop_calls[OF miss(4) this] show "k < fst x" by simp
    qed
    with Cons.IH[OF miss(4)] miss(5) show ?thesis by auto
  qed
qed

lemma fallback_loop_first_success:
  "fallback_loop cs k t i l w = (data, calls, w') \<Longrightarrow> (j, wb, r) \<in> set calls \<Longrightarrow> \<not> failed r \<Longrightarrow>
   r = Inr data \<and> snd (obj_fetch_ohlcv (cs ! (j - k)) t i l wb) = w'
   \<and> (\<forall>(j', wb', r') \<in> set calls. j' \<le> j \<and> (j' < j \<longrightarrow> failed r'))"
proof (induction cs arbitrary: k w calls)
  case Nil
  then show ?case by simp
next
  case (Cons c cs)
  from Cons.prems(1) show ?case
  proof (cases rule: fallback_loop_Cons_cases)
    case skip
    from Cons.IH[OF skip(2) Cons.prems(2,3)] fallback_loop_calls[OF skip(2) Cons.prems(2)]
    show ?thesis by (auto simp: Suc_diff_le)
  next
    case hit
    with Cons.prems(2) show ?thesis by auto
  next
    case (miss r0 w1 calls2)
    from miss(3,5) Cons.prems(2,3) have in2: "(j, wb, r) \<in> set calls2" by auto
    from fallback_loop_calls[OF miss(4) in2] have "k < j" by simp
    with Cons.IH[OF miss(4) in2 Cons.prems(3)] miss(3,5) show ?thesis
      by (auto simp: Suc_diff_le)
  qed
qed

lemma upt_filter_shift:
  "filter (\<lambda>j. P ((c # cs) ! (j - k))) [Suc k..<Suc (k + length cs)]
   = filter (\<lambda>j. P (cs ! (j - Suc k))) [Suc k..<Suc (k + length cs)]"
proof (rule filter_cong[OF refl])
  fix j assume "j \<in> set [Suc k..<Suc (k + length cs)]"
  then have "Suc k \<le> j" by (simp del: upt_Suc)
  then have "(c # cs) ! (j - k) = cs ! (j - Suc k)" by (simp add: Suc_diff_le)
  then show "P ((c # cs) ! (j - k)) = P (cs ! (j - Suc k))" by simp
qed

lemma fallback_loop_all_failed:
  "fallback_loop cs k t i l w = (data, calls, w') \<Longrightarrow> \<forall>(j, wb, r) \<in> set calls. failed r \<Longrightarrow>
   data = [] \<and> map fst calls
     = filter (\<lambda>j. i \<in> set (obj_SUPPORTED_INTERVALS (cs ! (j - k)))) [k..<k + length cs]"
proof (induction cs arbitrary: k w calls)
  case Nil
  then show ?case by simp
next
  case (Cons c cs)
  have upt: "[k..<k + length (c # cs)] = k # [Suc k..<Suc (k + length cs)]"
    by (simp add: upt_conv_Cons del: upt_Suc)
  from Cons.prems(1) show ?case
  proof (cases rule: fallback_loop_Cons_cases)
    case skip
    from Cons.IH[OF skip(2) Cons.prems(2)] skip(1) show ?thesis
      unfolding upt by (simp add: upt_filter_shift[where P="\<lambda>x. i \<in> set (obj_SUPPORTED_INTERVALS x)"] del: upt_Suc)
  next
    case hit
    with Cons.prems(2) show ?thesis by auto
  next
    case (miss r0 w1 calls2)
    from miss(5) Cons.prems(2) have "\<forall>(j, wb, r) \<in> set calls2. failed r" by auto
    from Cons.IH[OF miss(4) this] miss(1,5) show ?thesis
      unfolding upt by (simp add: upt_filter_shift[where P="\<lambda>x. i \<in> set (obj_SUPPORTED_INTERVALS x)"] del: upt_Suc)
  qed
qed

lemma fallback_loop_prefix:
  "fallback_loop cs k t i l w = (data, calls, w') \<Longrightarrow>
   prefix (map fst calls)
     (filter (\<lambda>j. i \<in> set (obj_SUPPORTED_INTERVALS (cs ! (j - k)))) [k..<k + length cs])"
proof (induction cs arbitrary: k w calls)
  case Nil
  then show ?case by simp
next
  case (Cons c cs)
  have upt: "[k..<k + length (c # cs)] = k # [Suc k..<Suc (k + length cs)]"
    by (simp add: upt_conv_Cons del: upt_Suc)
  from Cons.prems(1) show ?case
  proof (cases rule: fallback_loop_Cons_cases)
    case skip
    from Cons.IH[OF skip(2)] skip(1) show ?thesis
      unfolding upt by (simp add: upt_filter_shift[where P="\<lambda>x. i \<in> set (obj_SUPPORTED_INTERVALS x)"] del: upt_Suc)
  next
    case hit
    then show ?thesis unfolding upt by (simp del: upt_Suc)
  next
    case (miss r0 w1 calls2)
    from Cons.IH[OF miss(4)] miss(1,5) show ?thesis
      unfolding upt by (simp add: upt_filter_shift[where P="\<lambda>x. i \<in> set (obj_SUPPORTED_INTERVALS x)"] del: upt_Suc)
  qed
qed

lemma fallback_loop_chain:
  "fallback_loop cs k t i l w = (data, calls, w') \<Longrightarrow>
   (calls = [] \<longrightarrow> w' = w) \<and> (calls \<noteq> [] \<longrightarrow> fst (snd (hd calls)) = w
      \<and> snd (obj_fetch_ohlcv (cs ! (fst (last calls) - k)) t i l (fst (snd (last calls)))) = w')
   \<and> (\<forall>n. Suc n < length calls \<longrightarrow>
         fst (snd (calls ! Suc n))
         = snd (obj_fetch_ohlcv (cs ! (fst (calls ! n) - k)) t i l (fst (snd (calls ! n)))))"
proof (induction cs arbitrary: k w calls)
  case Nil
  then show ?case by simp
next
  case (Cons c cs)
  from Cons.prems(1) show ?case
  proof (cases rule: fallback_loop_Cons_cases)
    case skip
    have idx: "\<And>x. x \<in> set calls \<Longrightarrow> (c # cs) ! (fst x - k) = cs ! (fst x - Suc k)"
    proof -
      fix x assume "x \<in> set calls"
      then have "(fst x, fst (snd x), snd (snd x)) \<in> set calls" by simp
      from fallback_loop_calls[OF skip(2) this] show "(c # cs) ! (fst x - k) = cs ! (fst x - Suc k)"
        by (auto simp: Suc_diff_le)
    qed
    from Cons.IH[OF skip(2)] show ?thesis
      by (auto simp: idx)
  next
    case hit
    then show ?thesis by simp
  next
    case (miss r0 w1 calls2)
    have idx: "\<And>x. x \<in> set calls2 \<Longrightarrow> (c # cs) ! (fst x - k) = cs ! (fst x - Suc k)"
    proof -
      fix x assume "x \<in> set calls2"
      then have "(fst x, fst (snd x), snd (snd x)) \<in> set calls2" by simp
      from fallback_loop_calls[OF miss(4) this] show "(c # cs) ! (fst x - k) = cs ! (fst x - Suc k)"
        by (auto simp: Suc_diff_le)
    qed
    note IH = Cons.IH[OF miss(4)]
    show ?thesis
    proof (intro conjI impI allI)
      show "calls = [] \<Longrightarrow> w' = w" using miss(5) by simp
      show "fst (snd (hd calls)) = w" using miss(5) by simp
      show "snd (obj_fetch_ohlcv ((c # cs) ! (fst (last calls) - k)) t i l (fst (snd (last calls)))) = w'"
      proof (cases "calls2 = []")
        case True
        with IH miss show ?thesis by simp
      next
        case False
        then have "last calls = last calls2" "last calls2 \<in> set calls2" using miss(5) by simp_all
        with IH False idx show ?thesis by simp
      qed
    next
      fix n assume n: "Suc n < length calls"
      show "fst (snd (calls ! Suc n))
         = snd (obj_fetch_ohlcv ((c # cs) ! (fst (calls ! n) - k)) t i l (fst (snd (calls ! n))))"
      proof (cases n)
        case 0
        with n miss(5) have "calls2 \<noteq> []" by auto
        with IH have "fst (snd (hd calls2)) = w1" by simp
        with 0 miss \<open>calls2 \<noteq> []\<close> show ?thesis by (simp add: hd_conv_nth)
      next
        case (Suc m)
        with n miss(5) have m: "Suc m < length calls2" by simp
        then have "calls2 ! m \<in> set calls2" by simp
        with IH m Suc miss(5) idx show ?thesis by simp
      qed
    qed
  qed
qed

lemma fallback_loop_final:
  assumes "fallback_loop cs 0 t i l w = (data, calls, w')"
  shows "calls = [] \<longrightarrow> w' = w"
    and "calls \<noteq> [] \<longrightarrow> fst (snd (hd calls)) = w
          \<and> w' = snd (obj_fetch_ohlcv (cs ! fst (last calls)) t i l (fst (snd (last calls))))"
    and "\<forall>n. Suc n < length calls \<longrightarrow>
             fst (snd (calls ! Suc n))
             = snd (obj_fetch_ohlcv (cs ! fst (calls ! n)) t i l (fst (snd (calls ! n))))"
  using fallback_loop_chain[OF assms] by auto

lemma fallback_loop_outcomes:
  assumes "fallback_loop cs 0 t i l w = (data, calls, w')"
  shows "\<forall>(j, wb, r) \<in> set calls. r = fst (obj_fetch_ohlcv (cs ! j) t i l wb)"
  using fallback_loop_calls[OF assms] by auto

lemma fallback_loop_exhausted:
  assumes "fallback_loop cs 0 t i l w = (data, calls, w')"
    and "\<forall>(j, wb, r) \<in> set calls. failed r"
  shows "data = [] \<and> map fst calls = supporting cs i"
  using fallback_loop_all_failed[OF assms] by (simp add: supporting_def)

text \<open>
  Claim C1, as amended. \<open>fetch_with_fallback\<close> calls, in registry order, the connectors
  whose \<open>SUPPORTED_INTERVALS\<close> contain the requested interval and no others; the first
  call starts from the initial state and each later call from the state the previous
  call left. With the first call that returns a non-empty list the loop ends: that list
  is the result, the state is the one this call left, every earlier call failed and no
  later connector is called. As long as no call has returned a non-empty list the loop
  goes on: when every call made has failed, every connector supporting the interval
  has been called and the result is the empty list.
\<close>

theorem fetch_with_fallback_first_success:
  assumes "fetch_with_fallback cs t i l w = (data, calls, w')"
  shows "prefix (map fst calls) (supporting cs i)
       \<and> (\<forall>(j, wb, r) \<in> set calls. r = fst (obj_fetch_ohlcv (cs ! j) t i l wb))
       \<and> (calls = [] \<longrightarrow> w' = w)
       \<and> (calls \<noteq> [] \<longrightarrow> fst (snd (hd calls)) = w
            \<and> w' = snd (obj_fetch_ohlcv (cs ! fst (last calls)) t i l (fst (snd (last calls)))))
       \<and> (\<forall>n. Suc n < length calls \<longrightarrow>
             fst (snd (calls ! Suc n))
             = snd (obj_fetch_ohlcv (cs ! fst (calls ! n)) t i l (fst (snd (calls ! n)))))
       \<and> (\<forall>(j, wb, r) \<in> set calls. \<not> failed r \<longrightarrow>
             r = Inr data \<and> w' = snd (obj_fetch_ohlcv (cs ! j) t i l wb)
             \<and> (\<forall>(j', wb', r') \<in> set calls. j' \<le> j \<and> (j' < j \<longrightarrow> failed r')))
       \<and> ((\<forall>(j, wb, r) \<in> set calls. failed r) \<longrightarrow>
             data = [] \<and> map fst calls = supporting cs i)"
proof -
  from assms have run: "fallback_loop cs 0 t i l w = (data, calls, w')"
    by (simp add: fetch_with_fallback_def)
  have "prefix (map fst calls) (supporting cs i)"
    using fallback_loop_prefix[OF run] by (simp add: supporting_def)
  moreover note fallback_loop_outcomes[OF run] fallback_loop_final[OF run]
  moreover have "\<forall>(j, wb, r) \<in> set calls. \<not> failed r \<longrightarrow>
             r = Inr data \<and> w' = snd (obj_fetch_ohlcv (cs ! j) t i l wb)
             \<and> (\<forall>(j', wb', r') \<in> set calls. j' \<le> j \<and> (j' < j \<longrightarrow> failed r'))"
  proof (intro ballI, clarify)
    fix j wb r assume "(j, wb, r) \<in> set calls" "\<not> failed r"
    from fallback_loop_first_success[OF run this]
    show "r = Inr data \<and> w' = snd (obj_fetch_ohlcv (cs ! j) t i l wb)
             \<and> (\<forall>(j', wb', r') \<in> set calls. j' \<le> j \<and> (j' < j \<longrightarrow> failed r'))"
      by auto
  qed
  moreover have "(\<forall>(j, wb, r) \<in> set calls. failed r) \<longrightarrow>
             data = [] \<and> map fst calls = supporting cs i"
    using fallback_loop_exhausted[OF run] by blast
  ultimately show ?thesis by blast
qed

lemma stub_run_ABC:
  "fetch_with_fallback
     [stub_connector ''A'' [''1d''] (Inl ConnectionError),
      stub_connector ''B'' [''1d''] (Inr [sample_bar ''B'' 1, sample_bar ''B'' 2, sample_bar ''B'' 3]),
      stub_connector ''C'' [''1d''] (Inr [sample_bar ''C'' 1])] ''AAPL'' ''1d'' 30 ()
   = ([sample_bar ''B'' 1, sample_bar ''B'' 2, sample_bar ''B'' 3],
      [(0, (), Inl ConnectionError),
       (1, (), Inr [sample_bar ''B'' 1, sample_bar ''B'' 2, sample_bar ''B'' 3])], ())"
  by (simp add: fetch_with_fallback_def stub_connector_def)

lemma stub_run_AB:
  "fetch_with_fallback
     [stub_connector ''A'' [''1d''] (Inl ConnectionError),
      stub_connector ''B'' [''1d''] (Inr [])] ''AAPL'' ''1d'' 30 ()
   = ([], [(0, (), Inl ConnectionError), (1, (), Inr [])], ())"
  by (simp add: fetch_with_fallback_def stub_connector_def)

theorem fetch_with_fallback_first_success_witness:
  "fetch_with_fallback
     [stub_connector ''A'' [''1d''] (Inl ConnectionError),
      stub_connector ''B'' [''1d''] (Inr [sample_bar ''B'' 1, sample_bar ''B'' 2, sample_bar ''B'' 3]),
      stub_connector ''C'' [''1d''] (Inr [sample_bar ''C'' 1])] ''AAPL'' ''1d'' 30 ()
   = ([sample_bar ''B'' 1, sample_bar ''B'' 2, sample_bar ''B'' 3],
      [(0, (), Inl ConnectionError),
       (1, (), Inr [sample_bar ''B'' 1, sample_bar ''B'' 2, sample_bar ''B'' 3])], ())
   \<and> \<not> failed (Inr [sample_bar ''B'' 1, sample_bar ''B'' 2, sample_bar ''B'' 3])
   \<and> prefix [0, 1]
        (supporting
          [stub_connector ''A'' [''1d''] (Inl ConnectionError),
           stub_connector ''B'' [''1d''] (Inr [sample_bar ''B'' 1, sample_bar ''B'' 2, sample_bar ''B'' 3]),
           stub_connector ''C'' [''1d''] (Inr [sample_bar ''C'' 1])] ''1d'')
   \<and> fetch_with_fallback
       [stub_connector ''A'' [''1d''] (Inl ConnectionError),
        stub_connector ''B'' [''1d''] (Inr [])] ''AAPL'' ''1d'' 30 ()
     = ([], [(0, (), Inl ConnectionError), (1, (), Inr [])], ())
   \<and> [0, 1] = supporting
        [stub_connector ''A'' [''1d''] (Inl ConnectionError),
         stub_connector ''B'' [''1d''] (Inr [])] ''1d''"
  using fetch_with_fallback_first_success[OF stub_run_ABC]
    fetch_with_fallback_first_success[OF stub_run_AB] stub_run_ABC stub_run_AB
  by simp

text \<open>
  Claim C1 as stated leaves out the interval gate. Here A returns the empty list, B
  would return three bars but does not list the interval \<open>4h\<close>, and C supports it: the
  result is C's list, not B's, and C is called.
\<close>

theorem fetch_with_fallback_first_success_counterexample:
  "fst (obj_fetch_ohlcv (stub_connector ''A'' [''4h''] (Inr [])) ''AAPL'' ''4h'' 30 ()) = Inr []
   \<and> fst (obj_fetch_ohlcv
           (stub_connector ''B'' [''1d'']
              (Inr [sample_bar ''B'' 1, sample_bar ''B'' 2, sample_bar ''B'' 3]))
           ''AAPL'' ''4h'' 30 ())
       = Inr [sample_bar ''B'' 1, sample_bar ''B'' 2, sample_bar ''B'' 3]
   \<and> fetch_with_fallback
       [stub_connector ''A'' [''4h''] (Inr []),
        stub_connector ''B'' [''1d''] (Inr [sample_bar ''B'' 1, sample_bar ''B'' 2, sample_bar ''B'' 3]),
        stub_connector ''C'' [''4h''] (Inr [sample_bar ''C'' 1])] ''AAPL'' ''4h'' 30 ()
     = ([sample_bar ''C'' 1], [(0, (), Inr []), (2, (), Inr [sample_bar ''C'' 1])], ())
   \<and> [sample_bar ''C'' 1] \<noteq> [sample_bar ''B'' 1, sample_bar ''B'' 2, sample_bar ''B'' 3]"
  by (simp add: fetch_with_fallback_def stub_connector_def sample_bar_def)

text \<open>
  Claim C2. An exception raised by a connector's \<open>fetch_ohlcv\<close> is the value \<open>Inl\<close> of
  its call: the loop absorbs it and goes on with the next connector, and the result of
  \<open>fetch_with_fallback\<close> is a list. When every call made raises or returns the empty
  list, and so in particular when every connector of the registry does so from every
  state, every connector that supports the interval has been called, once and in
  registry order, and the result is the empty list.
\<close>

theorem fetch_with_fallback_all_fail:
  assumes "fetch_with_fallback cs t i l w = (data, calls, w')"
  shows "((\<forall>(j, wb, r) \<in> set calls. failed r) \<longrightarrow>
            data = [] \<and> map fst calls = supporting cs i
            \<and> (\<forall>(j, wb, r) \<in> set calls. r = fst (obj_fetch_ohlcv (cs ! j) t i l wb)))
       \<and> ((\<forall>c \<in> set cs. \<forall>w0. failed (fst (obj_fetch_ohlcv c t i l w0))) \<longrightarrow>
            data = [] \<and> map fst calls = supporting cs i
            \<and> (\<forall>(j, wb, r) \<in> set calls. failed r \<and> r = fst (obj_fetch_ohlcv (cs ! j) t i l wb)))"
proof -
  from assms have run: "fallback_loop cs 0 t i l w = (data, calls, w')"
    by (simp add: fetch_with_fallback_def)
  note out = fallback_loop_outcomes[OF run]
  have a: "data = [] \<and> map fst calls = supporting cs i"
    if "\<forall>(j, wb, r) \<in> set calls. failed r"
    using fallback_loop_exhausted[OF run that] .
  have b: "\<forall>(j, wb, r) \<in> set calls. failed r"
    if h: "\<forall>c \<in> set cs. \<forall>w0. failed (fst (obj_fetch_ohlcv c t i l w0))"
  proof (intro ballI, clarify)
    fix j wb r assume "(j, wb, r) \<in> set calls"
    from fallback_loop_calls[OF run this]
    have "j < length cs" "r = fst (obj_fetch_ohlcv (cs ! j) t i l wb)" by simp_all
    with h show "failed r" by simp
  qed
  show ?thesis
  proof (intro conjI impI)
    assume h: "\<forall>(j, wb, r) \<in> set calls. failed r"
    from a[OF h] show "data = []" "map fst calls = supporting cs i" by simp_all
    from out show "\<forall>(j, wb, r) \<in> set calls. r = fst (obj_fetch_ohlcv (cs ! j) t i l wb)" .
  next
    assume h: "\<forall>c \<in> set cs. \<forall>w0. failed (fst (obj_fetch_ohlcv c t i l w0))"
    from a[OF b[OF h]] show "data = []" "map fst calls = supporting cs i" by simp_all
    from b[OF h] out
    show "\<forall>(j, wb, r) \<in> set calls. failed r \<and> r = fst (obj_fetch_ohlcv (cs ! j) t i l wb)"
      by auto
  qed
qed

theorem fetch_with_fallback_all_fail_witness:
  "fetch_with_fallback
     [stub_connector ''A'' [''1d''] (Inl ConnectionError),
      stub_connector ''B'' [''1d''] (Inr [])] ''AAPL'' ''1d'' 30 ()
   = ([], [(0, (), Inl ConnectionError), (1, (), Inr [])], ())
   \<and> failed (Inl ConnectionError :: exn + OHLCVData list) \<and> failed (Inr [] :: exn + OHLCVData list)
   \<and> (\<forall>w0 :: unit. failed (fst (obj_fetch_ohlcv (stub_connector ''A'' [''1d''] (Inl ConnectionError))
                               ''AAPL'' ''1d'' 30 w0)))
   \<and> (\<forall>w0 :: unit. failed (fst (obj_fetch_ohlcv (stub_connector ''B'' [''1d''] (Inr []))
                               ''AAPL'' ''1d'' 30 w0)))
   \<and> [0, 1] = supporting
        [stub_connector ''A'' [''1d''] (Inl ConnectionError),
         stub_connector ''B'' [''1d''] (Inr [])] ''1d''"
  using fetch_with_fallback_all_fail[OF stub_run_AB] stub_run_AB
  by (simp add: stub_connector_def)


section \<open>The connectors\<close>
































end
